theory Spec2Isabelle
  imports Complex_Main "HOL-Library.Multiset"
begin

section \<open>Python values and dictionaries\<close>

text \<open>
  The repository of \<^verbatim>\<open>exchange_data_repository.py\<close> keeps nested Python dictionaries.
  A dictionary is an association list in insertion order: a key that is assigned again
  keeps its place, a new key is appended. \<open>dict_get\<close> is \<^verbatim>\<open>d.get(k)\<close>, with
  \<open>None\<close> for an absent key, \<open>dict_contains\<close> is \<^verbatim>\<open>k in d\<close>, \<open>dict_set\<close> is
  \<^verbatim>\<open>d[k] = v\<close>.

  Numbers (prices, volumes, time stamps) are exact rationals: the rounding of Python's
  floats is not modelled.
\<close>

datatype error = ValueError

definition dict_get :: "('k \<times> 'v) list \<Rightarrow> 'k \<Rightarrow> 'v option" where
  "dict_get d k = map_of d k"

definition dict_contains :: "('k \<times> 'v) list \<Rightarrow> 'k \<Rightarrow> bool" where
  "dict_contains d k = (k \<in> set (map fst d))"

fun dict_set :: "('k \<times> 'v) list \<Rightarrow> 'k \<Rightarrow> 'v \<Rightarrow> ('k \<times> 'v) list" where
  "dict_set [] k v = [(k, v)]"
| "dict_set ((k', v') # d) k v =
     (if k' = k then (k, v) # d else (k', v') # dict_set d k v)"

section \<open>Symbol standardization\<close>

text \<open>
  \<^verbatim>\<open>str.upper\<close> on the ASCII letters; every other character is left as it is.
\<close>

definition upper_char :: "char \<Rightarrow> char" where
  "upper_char c =
     (if 97 \<le> (of_char c :: nat) \<and> (of_char c :: nat) \<le> 122
      then char_of ((of_char c :: nat) - 32) else c)"

definition upper :: "string \<Rightarrow> string" where
  "upper s = map upper_char s"

text \<open>\<^verbatim>\<open>s.split(c)\<close> for a one-character separator: the pieces between the separators.\<close>

fun split :: "char \<Rightarrow> string \<Rightarrow> string list" where
  "split c [] = [[]]"
| "split c (x # xs) =
     (if x = c then [] # split c xs
      else (case split c xs of [] \<Rightarrow> [[x]] | p # ps \<Rightarrow> (x # p) # ps))"

text \<open>\<^verbatim>\<open>sub in s\<close> on strings: \<open>sub\<close> occurs in \<open>s\<close> as a contiguous piece.\<close>

fun starts_with :: "string \<Rightarrow> string \<Rightarrow> bool" where
  "starts_with [] s = True"
| "starts_with (c # cs) [] = False"
| "starts_with (c # cs) (x # xs) = (c = x \<and> starts_with cs xs)"

fun contains :: "string \<Rightarrow> string \<Rightarrow> bool" where
  "contains sub [] = (sub = [])"
| "contains sub (x # xs) = (starts_with sub (x # xs) \<or> contains sub xs)"

text \<open>
  \<^verbatim>\<open>_standardize_symbol\<close>. The argument is \<open>None\<close> or a string. The unpacking
  \<^verbatim>\<open>base, quote = symbol.split('-')\<close> raises \<^verbatim>\<open>ValueError\<close> unless the split has
  exactly two pieces.
\<close>

definition standardize_symbol :: "string option \<Rightarrow> error + string" where
  "standardize_symbol symbol =
     (case symbol of
        None \<Rightarrow> Inr ''BTC/USDT''
      | Some raw \<Rightarrow>
          (let s = upper raw in
           if CHR ''/'' \<in> set s then Inr s
           else if CHR ''-'' \<in> set s then
             (case split (CHR ''-'') s of
                [base, quote] \<Rightarrow> Inr (base @ ''/'' @ quote)
              | _ \<Rightarrow> Inl ValueError)
           else if s = ''BTCUSDT'' then Inr ''BTC/USDT''
           else if s = ''BTCUSD'' then Inr ''BTC/USD''
           else if contains ''BTC'' s \<and> (contains ''USDT'' s \<or> contains ''USD'' s) then
             (if contains ''USDT'' s then Inr ''BTC/USDT'' else Inr ''BTC/USD'')
           else Inr s))"


section \<open>Snapshots and the program state\<close>

text \<open>
  A ticker snapshot is a Python dict. Its \<^verbatim>\<open>symbol\<close> entry holds a string and every
  other entry (\<^verbatim>\<open>mark_price\<close>, \<^verbatim>\<open>bid_price\<close>, \<^verbatim>\<open>ask_price\<close>, \<^verbatim>\<open>volume_24h\<close>,
  \<^verbatim>\<open>last\<close>, ...) a number, as the adapters write them with \<^verbatim>\<open>float(...)\<close>; either
  may be absent or hold Python's \<^verbatim>\<open>None\<close>. For the symbol, \<open>None\<close> is "no such key",
  \<open>Some None\<close> is the value \<^verbatim>\<open>None\<close>; in \<open>numeric\<close> a key is absent from the list or
  maps to \<open>None\<close> (the value \<^verbatim>\<open>None\<close>) or to \<open>Some x\<close>.
\<close>

record ticker =
  symbol_field :: "string option option"
  numeric :: "(string \<times> rat option) list"

text \<open>\<^verbatim>\<open>d.get(key)\<close> on a price field: \<^verbatim>\<open>None\<close> when absent.\<close>

definition field_get :: "ticker \<Rightarrow> string \<Rightarrow> rat option" where
  "field_get d key = (case dict_get (numeric d) key of None \<Rightarrow> None | Some v \<Rightarrow> v)"

definition field_set :: "ticker \<Rightarrow> string \<Rightarrow> rat option \<Rightarrow> ticker" where
  "field_set d key v = d\<lparr>numeric := dict_set (numeric d) key v\<rparr>"

text \<open>
  Snapshot dicts are mutable objects that the adapters, the pump and the repository
  all hold by reference, so they live in a store \<open>heap\<close> from addresses to dicts;
  \<open>next_addr\<close> is the next address a new dict gets. The repository maps the
  standardized symbol to a mapping from exchange to the address of its snapshot
  (\<^verbatim>\<open>_ticker_data\<close>) and to the time of its last update (\<^verbatim>\<open>_last_update\<close>). The inner
  mappings never leave the repository by reference, so they are values. A registered
  callback is an identifier; \<open>calls\<close> records each invocation with its arguments, oldest
  first.
\<close>

record state =
  heap :: "nat \<Rightarrow> ticker"
  next_addr :: nat
  ticker_data :: "(string \<times> (string \<times> nat) list) list"
  last_update :: "(string \<times> (string \<times> rat) list) list"
  update_callbacks :: "nat list"
  calls :: "(nat \<times> string \<times> string \<times> nat) list"

text \<open>
  Both tables are \<^verbatim>\<open>defaultdict(dict)\<close>: \<^verbatim>\<open>table[k]\<close> on an absent key inserts an empty
  inner dict and yields it.
\<close>

definition dd_touch :: "('k \<times> ('j \<times> 'v) list) list \<Rightarrow> 'k \<Rightarrow> ('k \<times> ('j \<times> 'v) list) list" where
  "dd_touch t k = (if dict_contains t k then t else t @ [(k, [])])"

definition dd_get :: "('k \<times> ('j \<times> 'v) list) list \<Rightarrow> 'k \<Rightarrow> ('j \<times> 'v) list" where
  "dd_get t k = (case dict_get t k of None \<Rightarrow> [] | Some m \<Rightarrow> m)"

definition dd_set :: "('k \<times> ('j \<times> 'v) list) list \<Rightarrow> 'k \<Rightarrow> 'j \<Rightarrow> 'v \<Rightarrow> ('k \<times> ('j \<times> 'v) list) list" where
  "dd_set t k j v = dict_set t k (dict_set (dd_get t k) j v)"

definition init :: state where
  "init = \<lparr>heap = (\<lambda>_. \<lparr>symbol_field = None, numeric = []\<rparr>), next_addr = 0,
           ticker_data = [], last_update = [], update_callbacks = [], calls = []\<rparr>"

section \<open>The repository\<close>

definition register_update_callback :: "state \<Rightarrow> nat \<Rightarrow> state" where
  "register_update_callback s callback = s\<lparr>update_callbacks := update_callbacks s @ [callback]\<rparr>"

text \<open>
  \<^verbatim>\<open>update_ticker(symbol, exchange, ticker_data)\<close>: \<open>data\<close> is the address of the
  caller's dict and \<open>now\<close> the clock reading \<^verbatim>\<open>datetime.now().timestamp()\<close>. The previous
  entry is read before the store, and compared after the caller's dict got its
  \<^verbatim>\<open>symbol\<close>; both reads go through the heap, as the previous entry may be the very dict
  that is passed in.
\<close>

definition notify :: "state \<Rightarrow> string \<Rightarrow> string \<Rightarrow> nat \<Rightarrow> state" where
  "notify s std_symbol exchange data =
     s\<lparr>calls := calls s @ map (\<lambda>callback. (callback, std_symbol, exchange, data)) (update_callbacks s)\<rparr>"

definition update_ticker :: "state \<Rightarrow> string option \<Rightarrow> string \<Rightarrow> nat \<Rightarrow> rat \<Rightarrow> error + state" where
  "update_ticker s symbol exchange data now =
     (case standardize_symbol symbol of
        Inl e \<Rightarrow> Inl e
      | Inr std_symbol \<Rightarrow>
          (let prev_data = dict_get (dd_get (ticker_data s) std_symbol) exchange;
               s1 = s\<lparr>heap := (heap s)(data := (heap s data)\<lparr>symbol_field := Some (Some std_symbol)\<rparr>)\<rparr>;
               s2 = s1\<lparr>ticker_data := dd_set (ticker_data s1) std_symbol exchange data\<rparr>;
               s3 = s2\<lparr>last_update := dd_set (last_update s2) std_symbol exchange now\<rparr>
           in if (case prev_data of
                    None \<Rightarrow> True
                  | Some prev \<Rightarrow> field_get (heap s3 prev) ''mark_price'' \<noteq> field_get (heap s3 data) ''mark_price'')
              then Inr (notify s3 std_symbol exchange data)
              else Inr s3))"

text \<open>
  \<^verbatim>\<open>get_ticker(symbol, exchange=None)\<close> returns \<^verbatim>\<open>None\<close>, the stored snapshot object
  (its address), or a new dict that copies the exchange mapping of the symbol. The
  test \<^verbatim>\<open>if exchange:\<close> is on truthiness: \<^verbatim>\<open>None\<close> and the empty string both fail it.
\<close>

datatype ticker_result = NoTicker | Snapshot nat | Exchanges "(string \<times> nat) list"

definition get_ticker :: "state \<Rightarrow> string option \<Rightarrow> string option \<Rightarrow> error + ticker_result" where
  "get_ticker s symbol exchange =
     (case standardize_symbol symbol of
        Inl e \<Rightarrow> Inl e
      | Inr std_symbol \<Rightarrow>
          if \<not> dict_contains (ticker_data s) std_symbol then Inr NoTicker
          else (case exchange of
                  None \<Rightarrow> Inr (Exchanges (dd_get (ticker_data s) std_symbol))
                | Some ex \<Rightarrow>
                    if ex \<noteq> [] then
                      (case dict_get (dd_get (ticker_data s) std_symbol) ex of
                         None \<Rightarrow> Inr NoTicker
                       | Some data \<Rightarrow> Inr (Snapshot data))
                    else Inr (Exchanges (dd_get (ticker_data s) std_symbol))))"

definition get_all_tickers :: "state \<Rightarrow> (string \<times> (string \<times> nat) list) list" where
  "get_all_tickers s = map (\<lambda>(symbol, data). (symbol, data)) (ticker_data s)"


section \<open>Arbitrage detection\<close>

record opportunity =
  opp_symbol :: string
  buy_exchange :: string
  buy_price :: rat
  sell_exchange :: string
  sell_price :: rat
  profit_percent :: rat

text \<open>
  The entries of a symbol that are younger than 30 seconds at \<open>current_time\<close>; an
  exchange without a time stamp counts as updated at time 0.
\<close>

definition last_update_of :: "state \<Rightarrow> string \<Rightarrow> string \<Rightarrow> rat" where
  "last_update_of s std_symbol ex =
     (case dict_get (dd_get (last_update s) std_symbol) ex of None \<Rightarrow> 0 | Some t \<Rightarrow> t)"

definition active_exchanges :: "state \<Rightarrow> string \<Rightarrow> rat \<Rightarrow> (string \<times> nat) list" where
  "active_exchanges s std_symbol current_time =
     filter (\<lambda>(ex, data). current_time - last_update_of s std_symbol ex < 30)
       (dd_get (ticker_data s) std_symbol)"

text \<open>
  \<^verbatim>\<open>active_exchanges[ex].get(key)\<close>. The exchange is always a key of the mapping it is
  looked up in; the branch for an absent key is never taken.
\<close>

definition price_at :: "state \<Rightarrow> (string \<times> nat) list \<Rightarrow> string \<Rightarrow> string \<Rightarrow> rat option" where
  "price_at s active ex key =
     (case dict_get active ex of None \<Rightarrow> None | Some data \<Rightarrow> field_get (heap s data) key)"

text \<open>
  The two nested loops over the indices of \<^verbatim>\<open>exchange_list\<close>: each iteration yields
  the opportunities it appends, \<^verbatim>\<open>continue\<close> yields none.
\<close>

definition sell_iteration ::
  "state \<Rightarrow> string \<Rightarrow> (string \<times> nat) list \<Rightarrow> rat \<Rightarrow> nat \<Rightarrow> string \<Rightarrow> rat \<Rightarrow> nat \<Rightarrow> opportunity list" where
  "sell_iteration s std_symbol active min_profit_percent i buy_ex buy_pr j =
     (if i = j then []
      else
        (let sell_ex = map fst active ! j in
         case price_at s active sell_ex ''bid_price'' of
           None \<Rightarrow> []
         | Some sell_pr \<Rightarrow>
             if sell_pr = 0 then []
             else
               (let profit = (sell_pr - buy_pr) / buy_pr * 100 in
                if min_profit_percent \<le> profit then
                  [\<lparr>opp_symbol = std_symbol, buy_exchange = buy_ex, buy_price = buy_pr,
                    sell_exchange = sell_ex, sell_price = sell_pr, profit_percent = profit\<rparr>]
                else [])))"

definition buy_iteration ::
  "state \<Rightarrow> string \<Rightarrow> (string \<times> nat) list \<Rightarrow> rat \<Rightarrow> nat \<Rightarrow> opportunity list" where
  "buy_iteration s std_symbol active min_profit_percent i =
     (let buy_ex = map fst active ! i in
      case price_at s active buy_ex ''ask_price'' of
        None \<Rightarrow> []
      | Some buy_pr \<Rightarrow>
          if buy_pr = 0 then []
          else concat (map (sell_iteration s std_symbol active min_profit_percent i buy_ex buy_pr)
                 [0..<length active]))"

text \<open>
  \<^verbatim>\<open>opportunities.sort(key=..., reverse=True)\<close> is a stable sort into descending order:
  elements with equal keys keep their order.
\<close>

definition sort_descending :: "opportunity list \<Rightarrow> opportunity list" where
  "sort_descending opportunities = sort_key (\<lambda>x. - profit_percent x) opportunities"

text \<open>
  \<^verbatim>\<open>get_arbitrage_opportunities(symbol, min_profit_percent)\<close> at the clock reading
  \<open>current_time\<close>. The state is returned as well: reading \<^verbatim>\<open>self._last_update[std_symbol]\<close>
  in the staleness test inserts an empty dict when the symbol has no time stamps yet.
\<close>

definition get_arbitrage_opportunities ::
  "state \<Rightarrow> string option \<Rightarrow> rat \<Rightarrow> rat \<Rightarrow> error + (opportunity list \<times> state)" where
  "get_arbitrage_opportunities s symbol min_profit_percent current_time =
     (case standardize_symbol symbol of
        Inl e \<Rightarrow> Inl e
      | Inr std_symbol \<Rightarrow>
          if \<not> dict_contains (ticker_data s) std_symbol then Inr ([], s)
          else
            (let exchanges = dd_get (ticker_data s) std_symbol;
                 active = active_exchanges s std_symbol current_time;
                 s' = (if exchanges = [] then s
                       else s\<lparr>last_update := dd_touch (last_update s) std_symbol\<rparr>)
             in Inr (sort_descending
                       (concat (map (buy_iteration s std_symbol active min_profit_percent)
                          [0..<length active])), s')))"

section \<open>The ingestion pump\<close>

definition default_symbols :: "(string \<times> string) list" where
  "default_symbols =
     [(''BYBIT-spot'', ''BTC/USDT''), (''KRAKEN-spot'', ''BTC/USD''), (''HUOBI-spot'', ''BTC/USDT''),
      (''OKX-spot'', ''BTC/USDT''), (''BITFINEX-spot'', ''BTC/USD'')]"

text \<open>\<^verbatim>\<open>"symbol" not in data or not data["symbol"]\<close>\<close>

definition symbol_missing :: "ticker \<Rightarrow> bool" where
  "symbol_missing d =
     (case symbol_field d of None \<Rightarrow> True | Some None \<Rightarrow> True | Some (Some v) \<Rightarrow> v = [])"

text \<open>
  One round of the Kraken loop over the numeric keys. \<^verbatim>\<open>float\<close> leaves a number as it
  is; \<^verbatim>\<open>float(data["last"])\<close> raises \<^verbatim>\<open>TypeError\<close> on \<^verbatim>\<open>None\<close>, which the handler
  turns into \<^verbatim>\<open>data[key] = None\<close>.
\<close>

definition kraken_numeric :: "ticker \<Rightarrow> string \<Rightarrow> ticker" where
  "kraken_numeric d key =
     (case dict_get (numeric d) key of
        None \<Rightarrow> d
      | Some None \<Rightarrow> d
      | Some (Some v) \<Rightarrow>
          if v = 0 \<and> key = ''mark_price'' \<and> dict_contains (numeric d) ''last'' then
            (case dict_get (numeric d) ''last'' of
               Some (Some l) \<Rightarrow> field_set d key (Some l)
             | _ \<Rightarrow> field_set d key None)
          else d)"

definition kraken_placeholder :: ticker where
  "kraken_placeholder =
     \<lparr>symbol_field = Some (Some ''BTC/USD''),
      numeric = [(''mark_price'', None), (''bid_price'', None), (''ask_price'', None),
                 (''volume_24h'', None)]\<rparr>"

text \<open>The special handling of Kraken: the dict the rest of the cycle works on.\<close>

definition kraken_prepare :: "state \<Rightarrow> nat option \<Rightarrow> nat \<times> state" where
  "kraken_prepare s data =
     (let (a, s1) = (case data of
                       None \<Rightarrow> (next_addr s,
                                 s\<lparr>heap := (heap s)(next_addr s := kraken_placeholder),
                                   next_addr := Suc (next_addr s)\<rparr>)
                     | Some a \<Rightarrow> (a, s));
          d1 = (if symbol_missing (heap s1 a)
                then (heap s1 a)\<lparr>symbol_field := Some (Some ''BTC/USD'')\<rparr> else heap s1 a);
          d2 = foldl kraken_numeric d1 [''mark_price'', ''bid_price'', ''ask_price'', ''volume_24h'']
      in (a, s1\<lparr>heap := (heap s1)(a := d2)\<rparr>))"

text \<open>\<^verbatim>\<open>if field not in data: data[field] = None\<close>\<close>

definition fill_field :: "ticker \<Rightarrow> string \<Rightarrow> ticker" where
  "fill_field d field = (if dict_contains (numeric d) field then d else field_set d field None)"

text \<open>\<^verbatim>\<open>data.get(field) in [0, None]\<close>\<close>

definition zero_or_none :: "ticker \<Rightarrow> string \<Rightarrow> bool" where
  "zero_or_none d field = (field_get d field = Some 0 \<or> field_get d field = None)"

text \<open>
  One pass through the body of the loop of \<^verbatim>\<open>update_repository_from_websocket\<close>:
  \<open>data\<close> is what \<^verbatim>\<open>exchange_ws.get_data()\<close> returned (\<^verbatim>\<open>None\<close> or the adapter's dict)
  and \<open>now\<close> the clock. The pass either finds nothing to do, skips the snapshot, or
  calls \<^verbatim>\<open>update_ticker\<close>, whose exception the loop catches. Sleeping and printing are
  left out.
\<close>

datatype outcome = Waiting | Skipped | Updated | Failed error

definition pump_cycle :: "state \<Rightarrow> nat option \<Rightarrow> string \<Rightarrow> rat \<Rightarrow> outcome \<times> state" where
  "pump_cycle s polled exchange_name now =
     (let (data, s1) = (if exchange_name = ''KRAKEN-spot''
                        then (let (a, s') = kraken_prepare s polled in (Some a, s'))
                        else (polled, s))
      in case data of
           None \<Rightarrow> (Waiting, s1)
         | Some a \<Rightarrow>
             if symbol_field (heap s1 a) = None \<and> numeric (heap s1 a) = [] then (Waiting, s1)
             else
               (let d1 = (if symbol_missing (heap s1 a)
                          then (heap s1 a)\<lparr>symbol_field := Some (Some
                                 (case dict_get default_symbols exchange_name of
                                    None \<Rightarrow> ''BTC/USDT'' | Some v \<Rightarrow> v))\<rparr>
                          else heap s1 a);
                    symbol = (case symbol_field d1 of Some v \<Rightarrow> v | None \<Rightarrow> None);
                    d2 = foldl fill_field d1 [''mark_price'', ''bid_price'', ''ask_price'', ''volume_24h''];
                    s2 = s1\<lparr>heap := (heap s1)(a := d2)\<rparr>
                in if list_all (zero_or_none d2) [''mark_price'', ''bid_price'', ''ask_price'']
                   then (Skipped, s2)
                   else (case update_ticker s2 symbol exchange_name a now of
                           Inl e \<Rightarrow> (Failed e, s2)
                         | Inr s3 \<Rightarrow> (Updated, s3))))"

section \<open>The qualifying pairs, as the detector is described\<close>

text \<open>
  A price takes part in a trade only if it is neither \<^verbatim>\<open>None\<close> nor 0.
\<close>

definition usable :: "rat option \<Rightarrow> rat list" where
  "usable p = (case p of None \<Rightarrow> [] | Some v \<Rightarrow> if v = 0 then [] else [v])"

text \<open>
  The opportunities in encounter order, stated without loops and indices: every ordered
  pair of distinct exchanges of the active view, the buyer's ask and the seller's bid
  both usable, the profit at least the threshold.
\<close>

definition qualifying_pairs :: "state \<Rightarrow> string \<Rightarrow> (string \<times> nat) list \<Rightarrow> rat \<Rightarrow> opportunity list" where
  "qualifying_pairs s std_symbol active min_profit_percent =
     [\<lparr>opp_symbol = std_symbol, buy_exchange = buy, buy_price = buy_pr,
       sell_exchange = sell, sell_price = sell_pr,
       profit_percent = (sell_pr - buy_pr) / buy_pr * 100\<rparr>.
        (buy, buy_data) \<leftarrow> active,
        buy_pr \<leftarrow> usable (field_get (heap s buy_data) ''ask_price''),
        (sell, sell_data) \<leftarrow> active,
        buy \<noteq> sell,
        sell_pr \<leftarrow> usable (field_get (heap s sell_data) ''bid_price''),
        min_profit_percent \<le> (sell_pr - buy_pr) / buy_pr * 100]"

section \<open>Example states\<close>

text \<open>A snapshot as an adapter builds it: all four numbers present.\<close>

definition quote :: "string \<Rightarrow> rat \<Rightarrow> rat \<Rightarrow> rat \<Rightarrow> ticker" where
  "quote name mark bid ask =
     \<lparr>symbol_field = Some (Some name),
      numeric = [(''mark_price'', Some mark), (''bid_price'', Some bid),
                 (''ask_price'', Some ask), (''volume_24h'', Some 1)]\<rparr>"


text \<open>Two exchanges, the second with a bid of 0.\<close>

definition zero_bid :: state where
  "zero_bid =
     \<lparr>heap = (\<lambda>_. \<lparr>symbol_field = None, numeric = []\<rparr>)
        (0 := quote ''BTC/USDT'' 100 99 100, 1 := quote ''BTC/USDT'' 98 0 98),
      next_addr = 2,
      ticker_data = [(''BTC/USDT'', [(''X'', 0), (''Y'', 1)])],
      last_update = [(''BTC/USDT'', [(''X'', 1000), (''Y'', 1000)])],
      update_callbacks = [], calls = []\<rparr>"


section \<open>Dictionaries: properties\<close>

lemma dict_get_set_same: "dict_get (dict_set d k v) k = Some v"
  by (induction d) (auto simp: dict_get_def)

lemma dict_get_set_other: "k' \<noteq> k \<Longrightarrow> dict_get (dict_set d k v) k' = dict_get d k'"
  by (induction d) (auto simp: dict_get_def)

lemma dict_set_member: "(k, v) \<in> set (dict_set d k v)"
  by (induction d) auto

lemma dict_set_keys: "fst ` set (dict_set d k v) = insert k (fst ` set d)"
  by (induction d) force+

lemma dict_set_distinct: "distinct (map fst d) \<Longrightarrow> distinct (map fst (dict_set d k v))"
  by (induction d) (force simp: dict_set_keys)+

lemma dd_get_set_same: "dd_get (dd_set t k j v) k = dict_set (dd_get t k) j v"
  by (simp add: dd_get_def dd_set_def dict_get_set_same)

lemma dd_get_set_other: "k' \<noteq> k \<Longrightarrow> dd_get (dd_set t k j v) k' = dd_get t k'"
  by (simp add: dd_get_def dd_set_def dict_get_set_other)

lemma dd_set_contains: "dict_contains (dd_set t k j v) k"
  by (simp add: dict_contains_def dd_set_def dict_set_keys)

text \<open>What a successful \<^verbatim>\<open>update_ticker\<close> leaves behind.\<close>

lemma update_ticker_state:
  assumes "update_ticker s symbol exchange data now = Inr s'"
      and "standardize_symbol symbol = Inr std"
  shows "heap s' = (heap s)(data := (heap s data)\<lparr>symbol_field := Some (Some std)\<rparr>)"
    and "ticker_data s' = dd_set (ticker_data s) std exchange data"
    and "last_update s' = dd_set (last_update s) std exchange now"
    and "update_callbacks s' = update_callbacks s"
    and "next_addr s' = next_addr s"
  using assms by (auto simp: update_ticker_def notify_def Let_def split: if_splits)


lemma update_ticker_raises:
  "standardize_symbol symbol = Inl e \<Longrightarrow> update_ticker s symbol exchange data now = Inl e"
  by (simp add: update_ticker_def)

text \<open>The keys of every exchange mapping stay distinct.\<close>

lemma update_ticker_distinct:
  assumes "update_ticker s symbol exchange data now = Inr s'"
      and "distinct (map fst (dd_get (ticker_data s) k))"
  shows "distinct (map fst (dd_get (ticker_data s') k))"
proof -
  from assms(1) obtain std where std: "standardize_symbol symbol = Inr std"
    by (cases "standardize_symbol symbol") (auto simp: update_ticker_def)
  from update_ticker_state(2) [OF assms(1) std] assms(2) show ?thesis
    by (cases "k = std") (simp_all add: dd_get_set_same dd_get_set_other dict_set_distinct)
qed

lemma init_distinct: "distinct (map fst (dd_get (ticker_data init) k))"
  by (simp add: init_def dd_get_def dict_get_def)

section \<open>Standardization: properties\<close>

lemma upper_char_idem: "upper_char (upper_char c) = upper_char c"
proof (cases "97 \<le> (of_char c :: nat) \<and> (of_char c :: nat) \<le> 122")
  case True
  then have "(of_char c :: nat) - 32 < 256" by linarith
  then have "(of_char (char_of ((of_char c :: nat) - 32)) :: nat) = of_char c - 32"
    by simp
  with True show ?thesis by (auto simp add: upper_char_def)
next
  case False
  then show ?thesis by (auto simp add: upper_char_def)
qed

lemma upper_idem: "upper (upper s) = upper s"
  by (simp add: upper_def upper_char_idem)

lemma upper_char_slash: "upper_char (CHR ''/'') = CHR ''/''"
  by code_simp

lemma standardize_symbol_btc_usdt: "standardize_symbol (Some ''BTC/USDT'') = Inr ''BTC/USDT''"
  by code_simp

lemma standardize_symbol_btc_usd: "standardize_symbol (Some ''BTC/USD'') = Inr ''BTC/USD''"
  by code_simp

lemma split_join:
  "split c s = ps \<Longrightarrow> ps \<noteq> [] \<and> s = concat (hd ps # map (\<lambda>p. c # p) (tl ps))"
proof (induction s arbitrary: ps)
  case Nil
  then show ?case by auto
next
  case (Cons x xs)
  then show ?case
    by (cases "split c xs") (auto split: if_splits)
qed

lemma split_two: "split c s = [b, q] \<Longrightarrow> s = b @ c # q"
  using split_join [of c s "[b, q]"] by simp

text \<open>Whenever the standardizer returns, its result is a fixed point.\<close>

lemma standardize_symbol_fixed:
  assumes "standardize_symbol x = Inr s"
  shows "standardize_symbol (Some s) = Inr s"
proof (cases x)
  case None
  with assms have "s = ''BTC/USDT''" by (simp add: standardize_symbol_def)
  then show ?thesis by (simp add: standardize_symbol_btc_usdt)
next
  case (Some raw)
  define u where "u = upper raw"
  have uu: "upper u = u" by (simp add: u_def upper_idem)
  show ?thesis
  proof (cases "CHR ''/'' \<in> set u")
    case True
    with assms Some have "s = u" by (simp add: standardize_symbol_def u_def Let_def)
    with True uu show ?thesis by (simp add: standardize_symbol_def Let_def)
  next
    case noslash: False
    show ?thesis
    proof (cases "CHR ''-'' \<in> set u")
      case True
      with assms Some noslash obtain b q
        where bq: "split (CHR ''-'') u = [b, q]" and s: "s = b @ ''/'' @ q"
        by (auto simp: standardize_symbol_def u_def Let_def split: list.splits)
      from bq have "u = b @ CHR ''-'' # q" by (rule split_two)
      with uu have "upper b = b" "upper q = q" by (simp_all add: upper_def)
      with s have "upper s = s" by (simp add: upper_def upper_char_slash)
      moreover have "CHR ''/'' \<in> set s" using s by simp
      ultimately show ?thesis by (simp add: standardize_symbol_def Let_def)
    next
      case nodash: False
      from assms Some noslash nodash
      consider "s = ''BTC/USDT''" | "s = ''BTC/USD''"
        | "s = u" "standardize_symbol (Some raw) = Inr u"
        by (auto simp: standardize_symbol_def u_def Let_def split: if_splits)
      then show ?thesis
      proof cases
        case 1
        then show ?thesis by (simp add: standardize_symbol_btc_usdt)
      next
        case 2
        then show ?thesis by (simp add: standardize_symbol_btc_usd)
      next
        case 3
        have "standardize_symbol (Some u) = standardize_symbol (Some raw)"
          using uu by (simp add: standardize_symbol_def Let_def u_def)
        with 3 show ?thesis by simp
      qed
    qed
  qed
qed

text \<open>
  Claim C8. Standardization is meant to be idempotent on every input, strings with
  several \<^verbatim>\<open>-\<close> included. On such a string with no \<^verbatim>\<open>/\<close> the unpacking of the split
  raises \<^verbatim>\<open>ValueError\<close>: the standardizer returns nothing for \<^verbatim>\<open>BTC-USD-PERP\<close>, so
  there is no result to standardize again.
\<close>

theorem standardize_symbol_two_dashes_raises:
  "standardize_symbol (Some ''BTC-USD-PERP'') = Inl ValueError"
  by code_simp

text \<open>
  Claim C9, as the code has it. The standardizer maps \<^verbatim>\<open>BTC-USD\<close> to \<^verbatim>\<open>BTC/USD\<close>,
  \<^verbatim>\<open>BTCUSDT\<close> to \<^verbatim>\<open>BTC/USDT\<close>, \<^verbatim>\<open>btcusd\<close> to \<^verbatim>\<open>BTC/USD\<close> and \<^verbatim>\<open>None\<close> to the default
  \<^verbatim>\<open>BTC/USDT\<close>; the empty string is not \<^verbatim>\<open>None\<close> and is returned as it is.
\<close>

theorem standardize_symbol_cases:
  "standardize_symbol (Some ''BTC-USD'') = Inr ''BTC/USD'' \<and>
   standardize_symbol (Some ''BTCUSDT'') = Inr ''BTC/USDT'' \<and>
   standardize_symbol (Some ''btcusd'') = Inr ''BTC/USD'' \<and>
   standardize_symbol None = Inr ''BTC/USDT'' \<and>
   standardize_symbol (Some []) = Inr []"
  by code_simp

text \<open>The empty string does not get the default symbol.\<close>

theorem standardize_symbol_empty_not_default:
  "standardize_symbol (Some []) \<noteq> Inr ''BTC/USDT''"
  by code_simp

section \<open>Arbitrage detection: properties\<close>

lemma price_at_nth:
  assumes "distinct (map fst active)" "i < length active"
  shows "price_at s active (map fst active ! i) key = field_get (heap s (snd (active ! i))) key"
proof -
  have "(fst (active ! i), snd (active ! i)) \<in> set active" using assms(2) by simp
  with assms(1) have "map_of active (fst (active ! i)) = Some (snd (active ! i))"
    by (rule map_of_is_SomeI)
  with assms(2) show ?thesis by (simp add: price_at_def dict_get_def)
qed

lemma concat_map_cong_nth:
  assumes "\<And>i. i < length xs \<Longrightarrow> f i = g (xs ! i)"
  shows "concat (map f [0..<length xs]) = concat (map g xs)"
proof -
  have "map f [0..<length xs] = map (\<lambda>i. g (xs ! i)) [0..<length xs]"
    using assms by simp
  also have "\<dots> = map g (map (\<lambda>i. xs ! i) [0..<length xs])" by (simp add: comp_def)
  also have "\<dots> = map g xs" by (simp add: map_nth)
  finally show ?thesis by simp
qed

lemma sell_iteration_nth:
  assumes d: "distinct (map fst active)" and i: "i < length active" and j: "j < length active"
  shows "sell_iteration s std active minp i (fst (active ! i)) bp j =
     (case active ! j of (sell, sell_data) \<Rightarrow>
        if fst (active ! i) \<noteq> sell then
          concat (map (\<lambda>sp. if minp \<le> (sp - bp) / bp * 100
             then [\<lparr>opp_symbol = std, buy_exchange = fst (active ! i), buy_price = bp,
                    sell_exchange = sell, sell_price = sp, profit_percent = (sp - bp) / bp * 100\<rparr>] else [])
            (usable (field_get (heap s sell_data) ''bid_price'')))
        else [])"
proof -
  have ij: "i = j \<longleftrightarrow> fst (active ! i) = fst (active ! j)"
    using d i j by (metis length_map nth_eq_iff_index_eq nth_map)
  have p: "price_at s active (map fst active ! j) ''bid_price'' = field_get (heap s (snd (active ! j))) ''bid_price''"
    using d j by (rule price_at_nth)
  show ?thesis
    using ij p i j
    by (cases "active ! j") (auto simp: sell_iteration_def usable_def Let_def split: option.splits)
qed

lemma buy_iteration_nth:
  assumes d: "distinct (map fst active)" and i: "i < length active"
  shows "buy_iteration s std active minp i =
     (case active ! i of (buy, buy_data) \<Rightarrow>
        concat (map (\<lambda>bp.
          concat (map (\<lambda>(sell, sell_data).
            if buy \<noteq> sell then
              concat (map (\<lambda>sp. if minp \<le> (sp - bp) / bp * 100
                then [\<lparr>opp_symbol = std, buy_exchange = buy, buy_price = bp,
                    sell_exchange = sell, sell_price = sp, profit_percent = (sp - bp) / bp * 100\<rparr>] else [])
              (usable (field_get (heap s sell_data) ''bid_price'')))
            else []) active))
         (usable (field_get (heap s buy_data) ''ask_price''))))"
proof -
  have p: "price_at s active (map fst active ! i) ''ask_price'' = field_get (heap s (snd (active ! i))) ''ask_price''"
    using d i by (rule price_at_nth)
  have inner: "concat (map (sell_iteration s std active minp i (fst (active ! i)) bp) [0..<length active])
      = concat (map (\<lambda>(sell, sell_data).
            if fst (active ! i) \<noteq> sell then
              concat (map (\<lambda>sp. if minp \<le> (sp - bp) / bp * 100
                then [\<lparr>opp_symbol = std, buy_exchange = fst (active ! i), buy_price = bp,
                    sell_exchange = sell, sell_price = sp, profit_percent = (sp - bp) / bp * 100\<rparr>] else [])
              (usable (field_get (heap s sell_data) ''bid_price'')))
            else []) active)" for bp
    by (rule concat_map_cong_nth) (simp add: sell_iteration_nth [OF d i])
  obtain buy buy_data where ab: "active ! i = (buy, buy_data)" by (cases "active ! i")
  then have fb: "fst (active ! i) = buy" by simp
  show ?thesis
    using p i inner [unfolded fb] ab fb
    by (auto simp: buy_iteration_def usable_def Let_def split: option.splits)
qed

text \<open>With distinct keys, the two index loops produce the qualifying pairs in their order.\<close>

lemma loops_qualifying:
  assumes d: "distinct (map fst active)"
  shows "concat (map (buy_iteration s std active minp) [0..<length active]) = qualifying_pairs s std active minp"
  unfolding qualifying_pairs_def
  by (rule concat_map_cong_nth) (simp add: buy_iteration_nth [OF d] split: prod.splits)



lemma set_sort_descending: "set (sort_descending xs) = set xs"
  by (simp add: sort_descending_def)

lemma distinct_active:
  "distinct (map fst (dd_get (ticker_data s) std)) \<Longrightarrow> distinct (map fst (active_exchanges s std now))"
  unfolding active_exchanges_def by (rule distinct_map_filter)

lemma set_usable: "v \<in> set (usable p) \<longleftrightarrow> p = Some v \<and> v \<noteq> 0"
  by (cases p) (auto simp: usable_def)

lemma set_qualifying_pairs:
  "x \<in> set (qualifying_pairs s std active minp) \<longleftrightarrow>
     (\<exists>buy bd sell sd bp sp.
        (buy, bd) \<in> set active \<and> (sell, sd) \<in> set active \<and> buy \<noteq> sell \<and>
        field_get (heap s bd) ''ask_price'' = Some bp \<and> bp \<noteq> 0 \<and>
        field_get (heap s sd) ''bid_price'' = Some sp \<and> sp \<noteq> 0 \<and>
        minp \<le> (sp - bp) / bp * 100 \<and>
        x = \<lparr>opp_symbol = std, buy_exchange = buy, buy_price = bp,
             sell_exchange = sell, sell_price = sp, profit_percent = (sp - bp) / bp * 100\<rparr>)"
proof -
  have "x \<in> set (qualifying_pairs s std active minp) \<longleftrightarrow>
     (\<exists>buy bd. (buy, bd) \<in> set active \<and>
       (\<exists>bp. bp \<in> set (usable (field_get (heap s bd) ''ask_price'')) \<and>
         (\<exists>sell sd. (sell, sd) \<in> set active \<and> buy \<noteq> sell \<and>
           (\<exists>sp. sp \<in> set (usable (field_get (heap s sd) ''bid_price'')) \<and>
              minp \<le> (sp - bp) / bp * 100 \<and>
              x = \<lparr>opp_symbol = std, buy_exchange = buy, buy_price = bp,
                sell_exchange = sell, sell_price = sp, profit_percent = (sp - bp) / bp * 100\<rparr>))))"
    unfolding qualifying_pairs_def
    by (simp add: Bex_def split_beta)
  then show ?thesis
    unfolding set_usable by blast
qed

lemma get_arbitrage_eq:
  assumes "standardize_symbol symbol = Inr std"
      and "distinct (map fst (dd_get (ticker_data s) std))"
  shows "\<exists>s'. get_arbitrage_opportunities s symbol minp now =
           Inr (sort_descending (qualifying_pairs s std (active_exchanges s std now) minp), s')"
proof (cases "dict_contains (ticker_data s) std")
  case True
  from assms(2) have "distinct (map fst (active_exchanges s std now))" by (rule distinct_active)
  then have "concat (map (buy_iteration s std (active_exchanges s std now) minp)
                [0..<length (active_exchanges s std now)])
           = qualifying_pairs s std (active_exchanges s std now) minp"
    by (rule loops_qualifying)
  with True assms(1) show ?thesis
    by (simp add: get_arbitrage_opportunities_def Let_def)
next
  case False
  then have "dict_get (ticker_data s) std = None"
    by (simp add: dict_contains_def dict_get_def map_of_eq_None_iff)
  then have "active_exchanges s std now = []"
    by (simp add: active_exchanges_def dd_get_def)
  then have "qualifying_pairs s std (active_exchanges s std now) minp = []"
    by (simp add: qualifying_pairs_def)
  with False assms(1) show ?thesis
    by (simp add: get_arbitrage_opportunities_def sort_descending_def)
qed


lemmas arbitrage_eval =
  get_arbitrage_opportunities_def dict_contains_def dd_get_def dict_get_def dd_touch_def
  active_exchanges_def last_update_of_def buy_iteration_def sell_iteration_def price_at_def
  field_get_def quote_def sort_descending_def Let_def
  upt_rec [of _ "numeral _"] upt_rec [of _ "Suc _"]




lemma active_exchanges_subset:
  "(ex, a) \<in> set (active_exchanges s std now) \<Longrightarrow> (ex, a) \<in> set (dd_get (ticker_data s) std)"
  by (simp add: active_exchanges_def)

text \<open>
  Claim C2. Every opportunity that \<^verbatim>\<open>get_arbitrage_opportunities\<close> returns names a buy
  exchange whose stored \<^verbatim>\<open>ask_price\<close> is a number other than 0, which is its
  \<open>buy_price\<close>, and a sell exchange whose stored \<^verbatim>\<open>bid_price\<close> is a number other than
  0, which is its \<open>sell_price\<close>; the profit is computed with that non-zero divisor.
\<close>

theorem opportunity_prices_usable:
  assumes "standardize_symbol symbol = Inr std"
      and "distinct (map fst (dd_get (ticker_data s) std))"
      and "get_arbitrage_opportunities s symbol minp now = Inr (r, s')"
      and "x \<in> set r"
  shows "\<exists>bd sd.
           dict_get (dd_get (ticker_data s) std) (buy_exchange x) = Some bd \<and>
           field_get (heap s bd) ''ask_price'' = Some (buy_price x) \<and> buy_price x \<noteq> 0 \<and>
           dict_get (dd_get (ticker_data s) std) (sell_exchange x) = Some sd \<and>
           field_get (heap s sd) ''bid_price'' = Some (sell_price x) \<and> sell_price x \<noteq> 0 \<and>
           profit_percent x = (sell_price x - buy_price x) / buy_price x * 100"
proof -
  from get_arbitrage_eq [OF assms(1,2), of minp now] assms(3)
  have "r = sort_descending (qualifying_pairs s std (active_exchanges s std now) minp)"
    by auto
  with assms(4) have "x \<in> set (qualifying_pairs s std (active_exchanges s std now) minp)"
    by (simp add: set_sort_descending)
  then obtain buy bd sell sd bp sp where
    h: "(buy, bd) \<in> set (active_exchanges s std now)" "(sell, sd) \<in> set (active_exchanges s std now)"
       "field_get (heap s bd) ''ask_price'' = Some bp" "bp \<noteq> 0"
       "field_get (heap s sd) ''bid_price'' = Some sp" "sp \<noteq> 0"
       "x = \<lparr>opp_symbol = std, buy_exchange = buy, buy_price = bp,
             sell_exchange = sell, sell_price = sp, profit_percent = (sp - bp) / bp * 100\<rparr>"
    unfolding set_qualifying_pairs by blast
  from h(1) have "(buy, bd) \<in> set (dd_get (ticker_data s) std)" by (rule active_exchanges_subset)
  with assms(2) have b: "dict_get (dd_get (ticker_data s) std) buy = Some bd"
    unfolding dict_get_def by (rule map_of_is_SomeI)
  from h(2) have "(sell, sd) \<in> set (dd_get (ticker_data s) std)" by (rule active_exchanges_subset)
  with assms(2) have c: "dict_get (dd_get (ticker_data s) std) sell = Some sd"
    unfolding dict_get_def by (rule map_of_is_SomeI)
  show ?thesis using b c h(3-7) by simp
qed

text \<open>The only opportunity of the state with a zero bid has usable prices on both sides.\<close>

theorem opportunity_prices_usable_witness:
  "standardize_symbol (Some ''BTC/USDT'') = Inr ''BTC/USDT'' \<and>
   distinct (map fst (dd_get (ticker_data zero_bid) ''BTC/USDT'')) \<and>
   get_arbitrage_opportunities zero_bid (Some ''BTC/USDT'') (- 200) 1010 =
     Inr ([\<lparr>opp_symbol = ''BTC/USDT'', buy_exchange = ''Y'', buy_price = 98,
             sell_exchange = ''X'', sell_price = 99, profit_percent = 50 / 49\<rparr>], zero_bid) \<and>
   (\<exists>bd sd.
      dict_get (dd_get (ticker_data zero_bid) ''BTC/USDT'') ''Y'' = Some bd \<and>
      field_get (heap zero_bid bd) ''ask_price'' = Some 98 \<and> (98::rat) \<noteq> 0 \<and>
      dict_get (dd_get (ticker_data zero_bid) ''BTC/USDT'') ''X'' = Some sd \<and>
      field_get (heap zero_bid sd) ''bid_price'' = Some 99 \<and> (99::rat) \<noteq> 0 \<and>
      (50 / 49 :: rat) = (99 - 98) / 98 * 100)"
proof -
  let ?x = "\<lparr>opp_symbol = ''BTC/USDT'', buy_exchange = ''Y'', buy_price = 98,
             sell_exchange = ''X'', sell_price = 99, profit_percent = 50 / 49\<rparr>"
  have h1: "standardize_symbol (Some ''BTC/USDT'') = Inr ''BTC/USDT''"
    by (rule standardize_symbol_btc_usdt)
  have h2: "distinct (map fst (dd_get (ticker_data zero_bid) ''BTC/USDT''))"
    by (simp add: zero_bid_def dd_get_def dict_get_def)
  have h3: "get_arbitrage_opportunities zero_bid (Some ''BTC/USDT'') (- 200) 1010 = Inr ([?x], zero_bid)"
    by (simp add: standardize_symbol_btc_usdt zero_bid_def arbitrage_eval)
  have h4: "?x \<in> set [?x]" by simp
  from opportunity_prices_usable [OF h1 h2 h3 h4] h1 h2 h3 show ?thesis by simp
qed

section \<open>Change notification\<close>


lemma field_get_symbol_update [simp]:
  "field_get (d\<lparr>symbol_field := v\<rparr>) key = field_get d key"
  by (simp add: field_get_def)

lemma update_ticker_calls:
  assumes "standardize_symbol symbol = Inr std"
      and "update_ticker s symbol exchange data now = Inr s'"
  shows "calls s' = calls s @
       (if (case dict_get (dd_get (ticker_data s) std) exchange of None \<Rightarrow> True
            | Some prev \<Rightarrow> field_get (heap s prev) ''mark_price'' \<noteq> field_get (heap s data) ''mark_price'')
        then map (\<lambda>callback. (callback, std, exchange, data)) (update_callbacks s) else [])"
proof (cases "dict_get (dd_get (ticker_data s) std) exchange")
  case None
  with assms show ?thesis
    by (auto simp: update_ticker_def notify_def Let_def)
next
  case (Some prev)
  with assms show ?thesis
    by (cases "prev = data") (auto simp: update_ticker_def notify_def Let_def split: if_splits)
qed


text \<open>
  Passing the dict that is already stored never notifies: the previous entry and the
  new snapshot are one object.
\<close>

lemma update_ticker_same_object_silent:
  assumes "standardize_symbol symbol = Inr std"
      and "dict_get (dd_get (ticker_data s) std) exchange = Some data"
      and "update_ticker s symbol exchange data now = Inr s'"
  shows "calls s' = calls s"
  using update_ticker_calls [OF assms(1,3)] assms(2) by simp



end
